theory Spec2Isabelle
  imports Complex_Main
begin

section \<open>Python numbers, as the model methods use them\<close>

text \<open>
  The model classes of the ERP hold three kinds of numbers: Python \<open>int\<close>
  (IntegerField, the literals \<open>0\<close>, \<open>1\<close>, \<open>12\<close>, \<open>100\<close>), Python \<open>float\<close>
  (FloatField) and \<open>decimal.Decimal\<close> (DecimalField, \<open>Decimal('0.18')\<close>).
  A value carries its kind, because Python's arithmetic depends on it: \<open>int\<close> mixes
  with both other kinds, while an arithmetic operator applied to a \<open>float\<close> and a
  \<open>Decimal\<close> raises \<open>TypeError\<close>.

  The numeric content of a finite float and of a Decimal is a rational number. The
  embedding computes with that rational exactly: the binary rounding of float
  operations and the 28-digit context of Decimal operations are not modelled, nor
  are the special values (infinities, NaN).
\<close>

datatype pyerr = TypeError | ZeroDivisionError | DoesNotExist

datatype pynum = PyInt int | PyFloat rat | PyDecimal rat

fun num_val :: "pynum \<Rightarrow> rat" where
  "num_val (PyInt i) = of_int i"
| "num_val (PyFloat x) = x"
| "num_val (PyDecimal x) = x"

fun is_float :: "pynum \<Rightarrow> bool" where
  "is_float (PyFloat x) = True"
| "is_float (PyInt i) = False"
| "is_float (PyDecimal x) = False"

fun is_decimal :: "pynum \<Rightarrow> bool" where
  "is_decimal (PyDecimal x) = True"
| "is_decimal (PyInt i) = False"
| "is_decimal (PyFloat x) = False"

text \<open>\<open>x + y\<close>\<close>

fun py_add :: "pynum \<Rightarrow> pynum \<Rightarrow> pyerr + pynum" where
  "py_add (PyInt a) (PyInt b) = Inr (PyInt (a + b))"
| "py_add (PyInt a) (PyFloat b) = Inr (PyFloat (of_int a + b))"
| "py_add (PyInt a) (PyDecimal b) = Inr (PyDecimal (of_int a + b))"
| "py_add (PyFloat a) (PyInt b) = Inr (PyFloat (a + of_int b))"
| "py_add (PyFloat a) (PyFloat b) = Inr (PyFloat (a + b))"
| "py_add (PyFloat a) (PyDecimal b) = Inl TypeError"
| "py_add (PyDecimal a) (PyInt b) = Inr (PyDecimal (a + of_int b))"
| "py_add (PyDecimal a) (PyFloat b) = Inl TypeError"
| "py_add (PyDecimal a) (PyDecimal b) = Inr (PyDecimal (a + b))"

text \<open>\<open>x - y\<close>\<close>

fun py_sub :: "pynum \<Rightarrow> pynum \<Rightarrow> pyerr + pynum" where
  "py_sub (PyInt a) (PyInt b) = Inr (PyInt (a - b))"
| "py_sub (PyInt a) (PyFloat b) = Inr (PyFloat (of_int a - b))"
| "py_sub (PyInt a) (PyDecimal b) = Inr (PyDecimal (of_int a - b))"
| "py_sub (PyFloat a) (PyInt b) = Inr (PyFloat (a - of_int b))"
| "py_sub (PyFloat a) (PyFloat b) = Inr (PyFloat (a - b))"
| "py_sub (PyFloat a) (PyDecimal b) = Inl TypeError"
| "py_sub (PyDecimal a) (PyInt b) = Inr (PyDecimal (a - of_int b))"
| "py_sub (PyDecimal a) (PyFloat b) = Inl TypeError"
| "py_sub (PyDecimal a) (PyDecimal b) = Inr (PyDecimal (a - b))"

text \<open>\<open>x * y\<close>\<close>

fun py_mul :: "pynum \<Rightarrow> pynum \<Rightarrow> pyerr + pynum" where
  "py_mul (PyInt a) (PyInt b) = Inr (PyInt (a * b))"
| "py_mul (PyInt a) (PyFloat b) = Inr (PyFloat (of_int a * b))"
| "py_mul (PyInt a) (PyDecimal b) = Inr (PyDecimal (of_int a * b))"
| "py_mul (PyFloat a) (PyInt b) = Inr (PyFloat (a * of_int b))"
| "py_mul (PyFloat a) (PyFloat b) = Inr (PyFloat (a * b))"
| "py_mul (PyFloat a) (PyDecimal b) = Inl TypeError"
| "py_mul (PyDecimal a) (PyInt b) = Inr (PyDecimal (a * of_int b))"
| "py_mul (PyDecimal a) (PyFloat b) = Inl TypeError"
| "py_mul (PyDecimal a) (PyDecimal b) = Inr (PyDecimal (a * b))"

text \<open>
  \<open>x / y\<close> (true division). Two ints give a float. The operand kinds are checked
  before the divisor: \<open>1.5 / Decimal(0)\<close> is a \<open>TypeError\<close>. A zero divisor raises
  \<open>ZeroDivisionError\<close> (for Decimals its subclasses in the \<open>decimal\<close> module, which
  the embedding does not tell apart).
\<close>

fun py_truediv :: "pynum \<Rightarrow> pynum \<Rightarrow> pyerr + pynum" where
  "py_truediv (PyFloat a) (PyDecimal b) = Inl TypeError"
| "py_truediv (PyDecimal a) (PyFloat b) = Inl TypeError"
| "py_truediv x y =
     (if num_val y = 0 then Inl ZeroDivisionError
      else if is_decimal x \<or> is_decimal y then Inr (PyDecimal (num_val x / num_val y))
      else Inr (PyFloat (num_val x / num_val y)))"


definition py_lt :: "pynum \<Rightarrow> pynum \<Rightarrow> bool" where
  "py_lt x y = (num_val x < num_val y)"

definition py_ge :: "pynum \<Rightarrow> pynum \<Rightarrow> bool" where
  "py_ge x y = (num_val x \<ge> num_val y)"


text \<open>An exception ends the method: the rest runs only on a result.\<close>

definition and_then :: "'e + 'a \<Rightarrow> ('a \<Rightarrow> 'e + 'b) \<Rightarrow> 'e + 'b" where
  "and_then m f = (case m of Inl e \<Rightarrow> Inl e | Inr v \<Rightarrow> f v)"

text \<open>
  The builtin \<open>sum(iterable)\<close>: it starts from the int \<open>0\<close> and adds the items
  from left to right with \<open>+\<close>.
\<close>

fun py_sum_from :: "pynum \<Rightarrow> pynum list \<Rightarrow> pyerr + pynum" where
  "py_sum_from acc [] = Inr acc"
| "py_sum_from acc (x # xs) = and_then (py_add acc x) (\<lambda>acc'. py_sum_from acc' xs)"

definition py_sum :: "pynum list \<Rightarrow> pyerr + pynum" where
  "py_sum xs = py_sum_from (PyInt 0) xs"

text \<open>
  Primary keys (\<open>BaseModel.id\<close>, a UUID) are abstract identifiers. \<open>Model.save()\<close>
  writes the object over the row with its primary key, or adds a row. The embedding
  keeps the object as it is in memory: what the database engine does to a column
  value on the way in (rounding a Decimal to the column's decimal places, schema
  checks) is outside it.
\<close>

type_synonym uuid = nat

fun upsert :: "('a \<Rightarrow> uuid) \<Rightarrow> 'a \<Rightarrow> 'a list \<Rightarrow> 'a list" where
  "upsert key x [] = [x]"
| "upsert key x (y # ys) = (if key y = key x then x # ys else y # upsert key x ys)"

section \<open>inventory/models.py\<close>

subsection \<open>Material and StockMovement\<close>

record material =
  material_pk :: uuid
  current_stock :: pynum
  minimum_stock_level :: pynum
  maximum_stock_level :: pynum
  reorder_point :: pynum

record stock_movement =
  sm_material :: uuid
  sm_transaction_type :: string
  sm_quantity :: pynum
  sm_unit_cost :: pynum
  sm_total_cost :: pynum
  previous_stock :: pynum
  sm_current_stock :: pynum
  sm_reference :: "string option"

record purchase_order =
  po_pk :: uuid
  po_subtotal :: pynum
  po_tax_amount :: pynum
  po_discount_amount :: pynum
  po_total_amount :: pynum

record purchase_order_line_item =
  poli_pk :: uuid
  poli_purchase_order :: uuid
  poli_is_active :: bool
  quantity_ordered :: pynum
  quantity_received :: pynum
  poli_unit_price :: pynum
  poli_discount_percentage :: pynum
  poli_line_total :: pynum

text \<open>The tables of the inventory app that the methods below read and write.\<close>

record inventory_db =
  materials :: "uuid \<rightharpoonup> material"
  stock_movements :: "stock_movement list"
  purchase_orders :: "uuid \<rightharpoonup> purchase_order"
  purchase_order_line_items :: "purchase_order_line_item list"



text \<open>
  \<open>Material.update_stock(quantity, transaction_type, reference=None)\<close>. The two
  lists are the ones the method tests \<open>transaction_type\<close> against.
  \<open>self.save()\<close> writes the material; \<open>StockMovement.objects.create(...)\<close> builds
  the movement from the arguments given and the field defaults (\<open>unit_cost\<close> and
  \<open>total_cost\<close> default to the int \<open>0\<close>) and saves it. The result is the material
  as it is after the call and the tables after the call.
\<close>

definition inbound_types :: "string list" where
  "inbound_types = [''receipt'', ''production_receipt'', ''adjustment_in'']"

definition outbound_types :: "string list" where
  "outbound_types = [''issue'', ''production_issue'', ''adjustment_out'', ''sale'']"

text \<open>The keys of \<open>StockMovement.TRANSACTION_TYPES\<close>, in the order of the source.\<close>

definition transaction_types :: "string list" where
  "transaction_types =
     [''receipt'', ''issue'', ''production_receipt'', ''production_issue'',
      ''adjustment_in'', ''adjustment_out'', ''transfer_in'', ''transfer_out'',
      ''sale'', ''return'']"


subsection \<open>PurchaseOrder and PurchaseOrderLineItem\<close>

text \<open>
  \<open>PurchaseOrder.calculate_totals\<close>: \<open>self.purchaseorderlineitem_set\<close> is the
  reverse side of the line items' foreign key, the rows that point to the order;
  the order is saved with its new totals.
\<close>

definition purchaseorderlineitem_set ::
  "purchase_order \<Rightarrow> inventory_db \<Rightarrow> purchase_order_line_item list" where
  "purchaseorderlineitem_set self db =
     filter (\<lambda>item. poli_purchase_order item = po_pk self) (purchase_order_line_items db)"

definition po_calculate_totals ::
  "purchase_order \<Rightarrow> inventory_db \<Rightarrow> pyerr + (purchase_order \<times> inventory_db)" where
  "po_calculate_totals self db =
     (let line_items = filter poli_is_active (purchaseorderlineitem_set self db) in
      and_then (py_sum (map poli_line_total line_items)) (\<lambda>subtotal.
      and_then (py_mul subtotal (PyDecimal (18 / 100))) (\<lambda>tax_amount.
      and_then (py_add subtotal tax_amount) (\<lambda>gross.
      and_then (py_sub gross (po_discount_amount self)) (\<lambda>total_amount.
        let self' = self\<lparr>po_subtotal := subtotal, po_tax_amount := tax_amount,
                          po_total_amount := total_amount\<rparr>
        in Inr (self', db\<lparr>purchase_orders := (purchase_orders db)(po_pk self' \<mapsto> self')\<rparr>))))))"

text \<open>
  \<open>PurchaseOrderLineItem.save\<close>: the line total is computed first, then the row is
  written, then the order the item belongs to (read through the foreign key)
  recomputes its totals.
\<close>

definition poli_save ::
  "purchase_order_line_item \<Rightarrow> inventory_db
     \<Rightarrow> pyerr + (purchase_order_line_item \<times> inventory_db)" where
  "poli_save self db =
     and_then (py_truediv (poli_discount_percentage self) (PyInt 100)) (\<lambda>fraction.
     and_then (py_sub (PyInt 1) fraction) (\<lambda>factor.
     and_then (py_mul (poli_unit_price self) factor) (\<lambda>discounted_price.
     and_then (py_mul discounted_price (quantity_ordered self)) (\<lambda>line_total.
       let self' = self\<lparr>poli_line_total := line_total\<rparr>;
           db1 = db\<lparr>purchase_order_line_items :=
                      upsert poli_pk self' (purchase_order_line_items db)\<rparr>
       in (case purchase_orders db1 (poli_purchase_order self') of
             None \<Rightarrow> Inl DoesNotExist
           | Some order \<Rightarrow>
               and_then (po_calculate_totals order db1) (\<lambda>(order', db2). Inr (self', db2)))))))"

section \<open>sales/models.py\<close>

record sales_order =
  so_pk :: uuid
  so_subtotal :: pynum
  so_tax_amount :: pynum
  so_discount_amount :: pynum
  so_total_amount :: pynum

record sales_order_line_item =
  soli_pk :: uuid
  soli_sales_order :: uuid
  soli_is_active :: bool
  soli_quantity :: pynum
  soli_unit_price :: pynum
  soli_discount_percentage :: pynum
  soli_line_total :: pynum

record invoice =
  inv_pk :: uuid
  inv_status :: string
  inv_total_amount :: pynum
  inv_paid_amount :: pynum

record sales_db =
  sales_orders :: "uuid \<rightharpoonup> sales_order"
  sales_order_line_items :: "sales_order_line_item list"
  invoices :: "uuid \<rightharpoonup> invoice"

text \<open>\<open>SalesOrder.calculate_totals\<close>\<close>

definition salesorderlineitem_set ::
  "sales_order \<Rightarrow> sales_db \<Rightarrow> sales_order_line_item list" where
  "salesorderlineitem_set self db =
     filter (\<lambda>item. soli_sales_order item = so_pk self) (sales_order_line_items db)"

definition so_calculate_totals ::
  "sales_order \<Rightarrow> sales_db \<Rightarrow> pyerr + (sales_order \<times> sales_db)" where
  "so_calculate_totals self db =
     (let line_items = filter soli_is_active (salesorderlineitem_set self db) in
      and_then (py_sum (map soli_line_total line_items)) (\<lambda>subtotal.
      and_then (py_mul subtotal (PyDecimal (18 / 100))) (\<lambda>tax_amount.
      and_then (py_add subtotal tax_amount) (\<lambda>gross.
      and_then (py_sub gross (so_discount_amount self)) (\<lambda>total_amount.
        let self' = self\<lparr>so_subtotal := subtotal, so_tax_amount := tax_amount,
                          so_total_amount := total_amount\<rparr>
        in Inr (self', db\<lparr>sales_orders := (sales_orders db)(so_pk self' \<mapsto> self')\<rparr>))))))"

text \<open>\<open>SalesOrderLineItem.save\<close>\<close>

definition soli_save ::
  "sales_order_line_item \<Rightarrow> sales_db \<Rightarrow> pyerr + (sales_order_line_item \<times> sales_db)" where
  "soli_save self db =
     and_then (py_truediv (soli_discount_percentage self) (PyInt 100)) (\<lambda>fraction.
     and_then (py_sub (PyInt 1) fraction) (\<lambda>factor.
     and_then (py_mul (soli_unit_price self) factor) (\<lambda>discounted_price.
     and_then (py_mul discounted_price (soli_quantity self)) (\<lambda>line_total.
       let self' = self\<lparr>soli_line_total := line_total\<rparr>;
           db1 = db\<lparr>sales_order_line_items := upsert soli_pk self' (sales_order_line_items db)\<rparr>
       in (case sales_orders db1 (soli_sales_order self') of
             None \<Rightarrow> Inl DoesNotExist
           | Some order \<Rightarrow>
               and_then (so_calculate_totals order db1) (\<lambda>(order', db2). Inr (self', db2)))))))"

text \<open>\<open>Invoice.outstanding_amount\<close> and \<open>Invoice.mark_as_paid(amount=None)\<close>\<close>

definition outstanding_amount :: "invoice \<Rightarrow> pyerr + pynum" where
  "outstanding_amount self = py_sub (inv_total_amount self) (inv_paid_amount self)"

definition mark_as_paid ::
  "invoice \<Rightarrow> pynum option \<Rightarrow> sales_db \<Rightarrow> pyerr + (invoice \<times> sales_db)" where
  "mark_as_paid self amount db =
     and_then (case amount of None \<Rightarrow> outstanding_amount self | Some a \<Rightarrow> Inr a) (\<lambda>amount'.
     and_then (py_add (inv_paid_amount self) amount') (\<lambda>paid.
       let self1 = self\<lparr>inv_paid_amount := paid\<rparr>;
           self2 = (if py_ge (inv_paid_amount self1) (inv_total_amount self1)
                    then self1\<lparr>inv_status := ''paid''\<rparr> else self1)
       in Inr (self2, db\<lparr>invoices := (invoices db)(inv_pk self2 \<mapsto> self2)\<rparr>)))"

section \<open>hr/models.py\<close>




section \<open>production/models.py\<close>







section \<open>finance/models.py\<close>

subsection \<open>Account.update_balance\<close>









subsection \<open>Dates and \<open>dateutil.relativedelta\<close>\<close>
















subsection \<open>FixedAsset\<close>




section \<open>The depreciation schedule, as stated\<close>



section \<open>Sample records\<close>

text \<open>Concrete rows and objects on which the results below are evaluated.\<close>

definition sample_purchase_order :: purchase_order where
  "sample_purchase_order =
     \<lparr>po_pk = 1, po_subtotal = PyDecimal 0, po_tax_amount = PyDecimal 0,
      po_discount_amount = PyDecimal 5, po_total_amount = PyDecimal 0\<rparr>"

definition sample_po_line_item :: purchase_order_line_item where
  "sample_po_line_item =
     \<lparr>poli_pk = 1, poli_purchase_order = 1, poli_is_active = True,
      quantity_ordered = PyFloat (5 / 2), quantity_received = PyFloat 0,
      poli_unit_price = PyDecimal 10, poli_discount_percentage = PyDecimal 0,
      poli_line_total = PyDecimal 0\<rparr>"

definition sample_inventory_db :: inventory_db where
  "sample_inventory_db =
     \<lparr>materials = Map.empty, stock_movements = [],
      purchase_orders = [1 \<mapsto> sample_purchase_order],
      purchase_order_line_items = []\<rparr>"






definition sample_invoice :: invoice where
  "sample_invoice =
     \<lparr>inv_pk = 1, inv_status = ''pending'', inv_total_amount = PyDecimal 100,
      inv_paid_amount = PyDecimal 130\<rparr>"

definition sample_invoice_db :: sales_db where
  "sample_invoice_db =
     \<lparr>sales_orders = Map.empty, sales_order_line_items = [],
      invoices = [1 \<mapsto> sample_invoice]\<rparr>"










section \<open>Properties of the Python arithmetic\<close>

lemma and_then_Inl: "and_then (Inl e) f = Inl e"
  by (simp add: and_then_def)

lemma and_then_Inr: "and_then (Inr v) f = f v"
  by (simp add: and_then_def)

text \<open>
  Ints and Decimals mix: an operation on two values that are not floats returns a
  value that is not a float, with the exact result.
\<close>

lemma py_add_exact:
  assumes "\<not> is_float a" "\<not> is_float b"
  shows "\<exists>c. py_add a b = Inr c \<and> \<not> is_float c \<and> num_val c = num_val a + num_val b"
  using assms by (cases a; cases b) simp_all

lemma py_sub_exact:
  assumes "\<not> is_float a" "\<not> is_float b"
  shows "\<exists>c. py_sub a b = Inr c \<and> \<not> is_float c \<and> num_val c = num_val a - num_val b"
  using assms by (cases a; cases b) simp_all

lemma py_mul_exact:
  assumes "\<not> is_float a" "\<not> is_float b"
  shows "\<exists>c. py_mul a b = Inr c \<and> \<not> is_float c \<and> num_val c = num_val a * num_val b"
  using assms by (cases a; cases b) simp_all

lemma py_truediv_exact:
  assumes "\<not> is_float a" "\<not> is_float b" "num_val b \<noteq> 0" "is_decimal a \<or> is_decimal b"
  shows "\<exists>c. py_truediv a b = Inr c \<and> is_decimal c \<and> num_val c = num_val a / num_val b"
  using assms by (cases a; cases b) simp_all








text \<open>\<open>sum\<close> over items that are not floats, from a start that is not a float.\<close>

lemma py_sum_from_exact:
  assumes "\<not> is_float acc" "\<forall>x \<in> set xs. \<not> is_float x"
  shows "\<exists>r. py_sum_from acc xs = Inr r \<and> \<not> is_float r
            \<and> num_val r = num_val acc + sum_list (map num_val xs)"
  using assms
proof (induction xs arbitrary: acc)
  case Nil
  then show ?case by simp
next
  case (Cons x xs)
  from Cons.prems obtain c where c: "py_add acc x = Inr c" "\<not> is_float c"
      "num_val c = num_val acc + num_val x"
    using py_add_exact [of acc x] by auto
  from Cons.IH [of c] Cons.prems c obtain r where
    "py_sum_from c xs = Inr r" "\<not> is_float r" "num_val r = num_val c + sum_list (map num_val xs)"
    by auto
  with c show ?case by (simp add: and_then_Inr)
qed

lemma set_upsert: "set (upsert key x xs) \<subseteq> insert x (set xs)"
  by (induction xs) auto

section \<open>The stock ledger\<close>




text \<open>
  Of the ten choices of \<open>StockMovement.TRANSACTION_TYPES\<close>, \<open>update_stock\<close> handles
  seven (three inbound, four outbound); the other three are the transfers and the
  return.
\<close>

lemma handled_transaction_types:
  "length (inbound_types @ outbound_types) = 7"
  "filter (\<lambda>t. t \<notin> set (inbound_types @ outbound_types)) transaction_types
     = [''transfer_in'', ''transfer_out'', ''return'']"
  by (simp_all add: inbound_types_def outbound_types_def transaction_types_def)







section \<open>Order totals\<close>

text \<open>
  Line totals read back from the database are Decimals. The totals are computed for
  line totals and a discount that are Decimals or ints.
\<close>

lemma py_sum_exact:
  assumes "\<forall>x \<in> set xs. \<not> is_float x"
  shows "\<exists>r. py_sum xs = Inr r \<and> \<not> is_float r \<and> num_val r = sum_list (map num_val xs)
             \<and> (xs = [] \<longrightarrow> r = PyInt 0)"
proof (cases xs)
  case Nil
  then show ?thesis by (simp add: py_sum_def)
next
  case (Cons y ys)
  then show ?thesis
    using py_sum_from_exact [of "PyInt 0" xs] assms by (auto simp: py_sum_def)
qed

lemma so_calculate_totals_exact:
  assumes items: "\<forall>item \<in> set (filter soli_is_active (salesorderlineitem_set self db)).
                    \<not> is_float (soli_line_total item)"
    and disc: "\<not> is_float (so_discount_amount self)"
  shows "\<exists>self' db'. so_calculate_totals self db = Inr (self', db')
      \<and> num_val (so_subtotal self') =
          sum_list (map (\<lambda>item. num_val (soli_line_total item))
                     (filter soli_is_active (salesorderlineitem_set self db)))
      \<and> num_val (so_tax_amount self') = 18 / 100 * num_val (so_subtotal self')
      \<and> num_val (so_total_amount self') =
          num_val (so_subtotal self') + num_val (so_tax_amount self')
            - num_val (so_discount_amount self)
      \<and> (filter soli_is_active (salesorderlineitem_set self db) = [] \<longrightarrow>
            so_subtotal self' = PyInt 0 \<and> so_tax_amount self' = PyDecimal 0)
      \<and> self' = self\<lparr>so_subtotal := so_subtotal self', so_tax_amount := so_tax_amount self',
                       so_total_amount := so_total_amount self'\<rparr>
      \<and> db' = db\<lparr>sales_orders := (sales_orders db)(so_pk self \<mapsto> self')\<rparr>"
proof -
  let ?items = "filter soli_is_active (salesorderlineitem_set self db)"
  have "\<forall>x \<in> set (map soli_line_total ?items). \<not> is_float x"
    using items by auto
  then obtain subtotal where s: "py_sum (map soli_line_total ?items) = Inr subtotal"
      "\<not> is_float subtotal"
      "num_val subtotal = sum_list (map num_val (map soli_line_total ?items))"
      "?items = [] \<longrightarrow> subtotal = PyInt 0"
    using py_sum_exact [of "map soli_line_total ?items"] by auto
  obtain tax where t: "py_mul subtotal (PyDecimal (18 / 100)) = Inr tax" "\<not> is_float tax"
      "num_val tax = num_val subtotal * (18 / 100)"
    using py_mul_exact [of subtotal "PyDecimal (18 / 100)"] s(2) by auto
  obtain gross where g: "py_add subtotal tax = Inr gross" "\<not> is_float gross"
      "num_val gross = num_val subtotal + num_val tax"
    using py_add_exact [of subtotal tax] s(2) t(2) by auto
  obtain total where tt: "py_sub gross (so_discount_amount self) = Inr total"
      "num_val total = num_val gross - num_val (so_discount_amount self)"
    using py_sub_exact [of gross "so_discount_amount self"] g(2) disc by auto
  have "?items = [] \<longrightarrow> tax = PyDecimal 0"
    using s(4) t(1) by auto
  then show ?thesis
    using s t g tt
    by (simp add: so_calculate_totals_def Let_def and_then_Inr comp_def)
qed

lemma po_calculate_totals_exact:
  assumes items: "\<forall>item \<in> set (filter poli_is_active (purchaseorderlineitem_set self db)).
                    \<not> is_float (poli_line_total item)"
    and disc: "\<not> is_float (po_discount_amount self)"
  shows "\<exists>self' db'. po_calculate_totals self db = Inr (self', db')
      \<and> num_val (po_subtotal self') =
          sum_list (map (\<lambda>item. num_val (poli_line_total item))
                     (filter poli_is_active (purchaseorderlineitem_set self db)))
      \<and> num_val (po_tax_amount self') = 18 / 100 * num_val (po_subtotal self')
      \<and> num_val (po_total_amount self') =
          num_val (po_subtotal self') + num_val (po_tax_amount self')
            - num_val (po_discount_amount self)
      \<and> (filter poli_is_active (purchaseorderlineitem_set self db) = [] \<longrightarrow>
            po_subtotal self' = PyInt 0 \<and> po_tax_amount self' = PyDecimal 0)
      \<and> self' = self\<lparr>po_subtotal := po_subtotal self', po_tax_amount := po_tax_amount self',
                       po_total_amount := po_total_amount self'\<rparr>
      \<and> db' = db\<lparr>purchase_orders := (purchase_orders db)(po_pk self \<mapsto> self')\<rparr>"
proof -
  let ?items = "filter poli_is_active (purchaseorderlineitem_set self db)"
  have "\<forall>x \<in> set (map poli_line_total ?items). \<not> is_float x"
    using items by auto
  then obtain subtotal where s: "py_sum (map poli_line_total ?items) = Inr subtotal"
      "\<not> is_float subtotal"
      "num_val subtotal = sum_list (map num_val (map poli_line_total ?items))"
      "?items = [] \<longrightarrow> subtotal = PyInt 0"
    using py_sum_exact [of "map poli_line_total ?items"] by auto
  obtain tax where t: "py_mul subtotal (PyDecimal (18 / 100)) = Inr tax" "\<not> is_float tax"
      "num_val tax = num_val subtotal * (18 / 100)"
    using py_mul_exact [of subtotal "PyDecimal (18 / 100)"] s(2) by auto
  obtain gross where g: "py_add subtotal tax = Inr gross" "\<not> is_float gross"
      "num_val gross = num_val subtotal + num_val tax"
    using py_add_exact [of subtotal tax] s(2) t(2) by auto
  obtain total where tt: "py_sub gross (po_discount_amount self) = Inr total"
      "num_val total = num_val gross - num_val (po_discount_amount self)"
    using py_sub_exact [of gross "po_discount_amount self"] g(2) disc by auto
  have "?items = [] \<longrightarrow> tax = PyDecimal 0"
    using s(4) t(1) by auto
  then show ?thesis
    using s t g tt
    by (simp add: po_calculate_totals_def Let_def and_then_Inr comp_def)
qed



section \<open>Saving a line item\<close>

text \<open>
  \<open>quantity_ordered\<close> is a FloatField and \<open>unit_price\<close>, \<open>discount_percentage\<close> are
  DecimalFields. With values of these kinds \<open>discounted_price * self.quantity_ordered\<close>
  multiplies a Decimal by a float: the method raises before any row is written,
  whatever the numbers are.
\<close>

lemma poli_save_float_decimal:
  "poli_save (self\<lparr>quantity_ordered := PyFloat q, poli_unit_price := PyDecimal u,
                   poli_discount_percentage := PyDecimal d\<rparr>) db = Inl TypeError"
  by (simp add: poli_save_def and_then_def)

text \<open>
  The same happens when the discount is left at the field's default, the int \<open>0\<close>:
  \<open>0 / 100\<close> is a float, so is \<open>1 - 0.0\<close>, and the Decimal unit price is
  multiplied by a float.
\<close>

lemma poli_save_default_discount:
  "poli_save (self\<lparr>poli_unit_price := PyDecimal u, poli_discount_percentage := PyInt 0\<rparr>) db
     = Inl TypeError"
  by (simp add: poli_save_def and_then_def)

text \<open>
  With a Decimal unit price, a Decimal discount and an int quantity the save goes
  through and sets \<open>line_total\<close> to \<open>unit_price * (1 - discount_percentage / 100) *
  quantity\<close>: for the sales order line item, whose quantity is an IntegerField, and
  for a purchase order line item whose quantity happens to be an int.
\<close>

lemma upsert_member: "x \<in> set (upsert key x xs)"
  by (induction xs) auto

lemma soli_save_decimal_int:
  assumes price: "soli_unit_price self = PyDecimal u"
    and disc: "soli_discount_percentage self = PyDecimal d"
    and qty: "soli_quantity self = PyInt q"
    and order: "sales_orders db (soli_sales_order self) = Some order"
    and order_disc: "\<not> is_float (so_discount_amount order)"
    and rows: "\<forall>item \<in> set (sales_order_line_items db). \<not> is_float (soli_line_total item)"
  shows "\<exists>self' db'. soli_save self db = Inr (self', db')
     \<and> self' = self\<lparr>soli_line_total := PyDecimal (u * (1 - d / 100) * of_int q)\<rparr>
     \<and> self' \<in> set (sales_order_line_items db')"
proof -
  let ?self' = "self\<lparr>soli_line_total := PyDecimal (u * (1 - d / 100) * of_int q)\<rparr>"
  let ?db1 = "db\<lparr>sales_order_line_items := upsert soli_pk ?self' (sales_order_line_items db)\<rparr>"
  have "\<forall>item \<in> set (sales_order_line_items ?db1). \<not> is_float (soli_line_total item)"
    using rows set_upsert [of soli_pk ?self' "sales_order_line_items db"] by auto
  then have "\<forall>item \<in> set (filter soli_is_active (salesorderlineitem_set order ?db1)).
               \<not> is_float (soli_line_total item)"
    by (simp add: salesorderlineitem_set_def)
  then obtain order' db2 where tot: "so_calculate_totals order ?db1 = Inr (order', db2)"
      "db2 = ?db1\<lparr>sales_orders := (sales_orders ?db1)(so_pk order \<mapsto> order')\<rparr>"
    using so_calculate_totals_exact [OF _ order_disc, of ?db1] by blast
  have "soli_save self db = Inr (?self', db2)"
    using price disc qty order tot(1)
    by (simp add: soli_save_def and_then_Inr Let_def)
  moreover have "?self' \<in> set (sales_order_line_items db2)"
    using tot(2) upsert_member [of ?self' soli_pk "sales_order_line_items db"] by simp
  ultimately show ?thesis by blast
qed

lemma poli_save_decimal_int:
  assumes price: "poli_unit_price self = PyDecimal u"
    and disc: "poli_discount_percentage self = PyDecimal d"
    and qty: "quantity_ordered self = PyInt q"
    and order: "purchase_orders db (poli_purchase_order self) = Some order"
    and order_disc: "\<not> is_float (po_discount_amount order)"
    and rows: "\<forall>item \<in> set (purchase_order_line_items db). \<not> is_float (poli_line_total item)"
  shows "\<exists>self' db'. poli_save self db = Inr (self', db')
     \<and> self' = self\<lparr>poli_line_total := PyDecimal (u * (1 - d / 100) * of_int q)\<rparr>
     \<and> self' \<in> set (purchase_order_line_items db')"
proof -
  let ?self' = "self\<lparr>poli_line_total := PyDecimal (u * (1 - d / 100) * of_int q)\<rparr>"
  let ?db1 = "db\<lparr>purchase_order_line_items :=
                   upsert poli_pk ?self' (purchase_order_line_items db)\<rparr>"
  have "\<forall>item \<in> set (purchase_order_line_items ?db1). \<not> is_float (poli_line_total item)"
    using rows set_upsert [of poli_pk ?self' "purchase_order_line_items db"] by auto
  then have "\<forall>item \<in> set (filter poli_is_active (purchaseorderlineitem_set order ?db1)).
               \<not> is_float (poli_line_total item)"
    by (simp add: purchaseorderlineitem_set_def)
  then obtain order' db2 where tot: "po_calculate_totals order ?db1 = Inr (order', db2)"
      "db2 = ?db1\<lparr>purchase_orders := (purchase_orders ?db1)(po_pk order \<mapsto> order')\<rparr>"
    using po_calculate_totals_exact [OF _ order_disc, of ?db1] by blast
  have "poli_save self db = Inr (?self', db2)"
    using price disc qty order tot(1)
    by (simp add: poli_save_def and_then_Inr Let_def)
  moreover have "?self' \<in> set (purchase_order_line_items db2)"
    using tot(2) upsert_member [of ?self' poli_pk "purchase_order_line_items db"] by simp
  ultimately show ?thesis by blast
qed

text \<open>
  C6. The property: saving a purchase order line item sets \<open>line_total\<close> to
  \<open>unit_price * (1 - discount_percentage / 100) * quantity_ordered\<close>, recomputes the
  order's totals, and completes without error for all non-negative unit prices,
  discounts and quantities. The code does not have it: on the line item with unit
  price \<open>Decimal('10')\<close>, discount \<open>Decimal('0')\<close> and quantity \<open>2.5\<close>, in a database
  that holds its purchase order, the save raises \<open>TypeError\<close>.
\<close>

theorem poli_save_raises_TypeError:
  "poli_save sample_po_line_item sample_inventory_db = Inl TypeError"
  by (simp add: poli_save_def sample_po_line_item_def and_then_def)

section \<open>Invoices\<close>

text \<open>\<open>mark_as_paid()\<close> without an amount, with its local names replaced by their values.\<close>

lemma mark_as_paid_None:
  "mark_as_paid self None db =
     and_then (py_sub (inv_total_amount self) (inv_paid_amount self)) (\<lambda>amount.
     and_then (py_add (inv_paid_amount self) amount) (\<lambda>paid.
       Inr (if py_ge paid (inv_total_amount self)
            then self\<lparr>inv_paid_amount := paid, inv_status := ''paid''\<rparr>
            else self\<lparr>inv_paid_amount := paid\<rparr>,
            db\<lparr>invoices := (invoices db)(inv_pk self \<mapsto>
                 (if py_ge paid (inv_total_amount self)
                  then self\<lparr>inv_paid_amount := paid, inv_status := ''paid''\<rparr>
                  else self\<lparr>inv_paid_amount := paid\<rparr>))\<rparr>)))"
  by (simp add: mark_as_paid_def outstanding_amount_def Let_def if_distrib [of inv_pk] cong: if_cong)

text \<open>
  Paying the outstanding amount, \<open>paid + (total - paid)\<close>: the result has the value
  of the total; paying again from there changes nothing.
\<close>

lemma pay_outstanding:
  assumes "\<not> is_float tot" "\<not> is_float paid"
  shows "\<exists>amount paid'. py_sub tot paid = Inr amount \<and> py_add paid amount = Inr paid'
           \<and> num_val paid' = num_val tot \<and> \<not> is_float paid'
           \<and> (is_decimal paid' \<longleftrightarrow> is_decimal tot \<or> is_decimal paid)"
  using assms by (cases tot; cases paid) simp_all

lemma pay_outstanding_again:
  assumes "\<not> is_float tot" "\<not> is_float paid" "num_val paid = num_val tot"
    "is_decimal tot \<longrightarrow> is_decimal paid"
  shows "\<exists>amount. py_sub tot paid = Inr amount \<and> py_add paid amount = Inr paid"
  using assms by (cases tot; cases paid) simp_all

text \<open>
  C10. For every invoice (total and paid amount being Decimals or ints, whatever
  their order: unpaid, partially paid or overpaid), \<open>mark_as_paid()\<close> with no amount
  returns and saves the invoice with \<open>paid_amount\<close> equal to \<open>total_amount\<close> and
  status \<open>paid\<close>; and a second call without an amount returns the same invoice and
  the same tables: paid amount and status are unchanged.
\<close>

theorem mark_as_paid_in_full:
  assumes "\<not> is_float (inv_total_amount self)" and "\<not> is_float (inv_paid_amount self)"
  shows "\<exists>self' db'. mark_as_paid self None db = Inr (self', db')
     \<and> num_val (inv_paid_amount self') = num_val (inv_total_amount self)
     \<and> inv_status self' = ''paid''
     \<and> inv_total_amount self' = inv_total_amount self
     \<and> invoices db' (inv_pk self) = Some self'
     \<and> mark_as_paid self' None db' = Inr (self', db')"
proof -
  obtain amount paid' where p: "py_sub (inv_total_amount self) (inv_paid_amount self) = Inr amount"
      "py_add (inv_paid_amount self) amount = Inr paid'"
      "num_val paid' = num_val (inv_total_amount self)" "\<not> is_float paid'"
      "is_decimal paid' \<longleftrightarrow> is_decimal (inv_total_amount self) \<or> is_decimal (inv_paid_amount self)"
    using pay_outstanding [OF assms] by blast
  obtain amount2 where q: "py_sub (inv_total_amount self) paid' = Inr amount2"
      "py_add paid' amount2 = Inr paid'"
    using pay_outstanding_again [of "inv_total_amount self" paid'] assms(1) p(3,4,5) by blast
  let ?self' = "self\<lparr>inv_paid_amount := paid', inv_status := ''paid''\<rparr>"
  let ?db' = "db\<lparr>invoices := (invoices db)(inv_pk self \<mapsto> ?self')\<rparr>"
  have first: "mark_as_paid self None db = Inr (?self', ?db')"
    using p by (simp add: mark_as_paid_None and_then_Inr py_ge_def)
  have second: "mark_as_paid ?self' None ?db' = Inr (?self', ?db')"
    using q p(3) by (simp add: mark_as_paid_None and_then_Inr py_ge_def)
  show ?thesis
    using first second p(3) by simp
qed

text \<open>An invoice of 100 on which 130 has been paid.\<close>

theorem mark_as_paid_in_full_witness:
  "\<exists>self' db'. mark_as_paid sample_invoice None sample_invoice_db = Inr (self', db')
     \<and> num_val (inv_paid_amount self') = 100
     \<and> inv_status self' = ''paid''
     \<and> invoices db' 1 = Some self'
     \<and> mark_as_paid self' None db' = Inr (self', db')"
  using mark_as_paid_in_full [of sample_invoice sample_invoice_db]
  by (auto simp add: sample_invoice_def)

section \<open>Payroll\<close>




section \<open>Account balances\<close>







section \<open>Production ratios\<close>














section \<open>Depreciation\<close>

subsection \<open>Months between two dates\<close>












subsection \<open>The schedule\<close>












subsection \<open>\<open>calculate_depreciation\<close>\<close>





end
